theory Spec2Isabelle
  imports Main "HOL-Library.Sublist"
begin

section \<open>Python values and exceptions\<close>

text \<open>
  The two clients of the repository (\<^verbatim>\<open>services/atlantis/atlantis.py\<close> and
  \<^verbatim>\<open>services/github/github.py\<close>) are embedded as functions that pass the state of
  the remote side explicitly and return either the raised exception (\<open>Inl\<close>) or the
  returned value (\<open>Inr\<close>).

  Dynamically typed Python values (JSON bodies, returned dictionaries) are values of
  \<open>pyval\<close>; a dictionary keeps its insertion order as an association list.
\<close>

datatype pyval =
    PNone
  | PStr string
  | PInt int
  | PBool bool
  | PList "pyval list"
  | PDict "(string \<times> pyval) list"

text \<open>
  The exceptions the code raises or lets through. The string of each is the text that
  \<^verbatim>\<open>str(e)\<close> yields; \<open>GithubException\<close> and \<open>HTTPError\<close> also carry the status.
  \<open>TypeError\<close> is what Python raises when a call does not fit the signature of the
  function called. \<open>OtherException\<close> stands for every other subclass of \<^verbatim>\<open>Exception\<close>
  (connection errors, JSON decoding errors, ...).
\<close>

datatype exn =
    ValueError string
  | GithubException int string
  | HTTPError int string
  | TypeError string
  | OtherException string

fun str_exn :: "exn \<Rightarrow> string" where
  "str_exn (ValueError m) = m"
| "str_exn (GithubException st m) = m"
| "str_exn (HTTPError st m) = m"
| "str_exn (TypeError m) = m"
| "str_exn (OtherException m) = m"

text \<open>
  Python truthiness of an \<^verbatim>\<open>Optional[str]\<close> argument: \<^verbatim>\<open>None\<close> and the empty string are
  false, every other string is true.
\<close>

definition truthy :: "string option \<Rightarrow> bool" where
  "truthy x = (case x of None \<Rightarrow> False | Some s \<Rightarrow> s \<noteq> [])"

text \<open>\<^verbatim>\<open>s.rstrip(c)\<close> for a one-character argument: all trailing occurrences are removed.\<close>

definition rstrip :: "char \<Rightarrow> string \<Rightarrow> string" where
  "rstrip c s = rev (dropWhile (\<lambda>x. x = c) (rev s))"

text \<open>Sequencing of two calls: an exception of the first ends the computation.\<close>

definition and_then ::
  "('w \<Rightarrow> (exn + 'a) \<times> 'w) \<Rightarrow> ('a \<Rightarrow> 'w \<Rightarrow> (exn + 'b) \<times> 'w) \<Rightarrow> 'w \<Rightarrow> (exn + 'b) \<times> 'w" where
  "and_then m f w = (case m w of (Inl e, w') \<Rightarrow> (Inl e, w') | (Inr x, w') \<Rightarrow> f x w')"

definition returns :: "'a \<Rightarrow> 'w \<Rightarrow> (exn + 'a) \<times> 'w" where
  "returns x w = (Inr x, w)"


section \<open>The Atlantis client (services/atlantis/atlantis.py)\<close>

record atlantis_service =
  base_url :: string
  timeout :: int
  verify_ssl :: bool
  auth :: "(string \<times> string) option"
  headers :: "(string \<times> string) list"

text \<open>
  \<^verbatim>\<open>AtlantisService.__init__\<close>. \<open>auth\<close> is the \<^verbatim>\<open>HTTPBasicAuth(username, password)\<close>
  credential, \<open>headers\<close> the header dictionary in insertion order.
\<close>

definition AtlantisService ::
  "string \<Rightarrow> string option \<Rightarrow> string option \<Rightarrow> string option \<Rightarrow> bool \<Rightarrow> int
    \<Rightarrow> exn + atlantis_service" where
  "AtlantisService base_url_arg username password token verify_ssl_arg timeout_arg =
    (if base_url_arg = [] then Inl (ValueError ''base_url is required'')
     else if \<not> truthy username \<and> \<not> truthy password \<and> \<not> truthy token then
       Inl (ValueError
         ''Either username/password or token must be provided for authentication'')
     else
       Inr \<lparr> base_url = rstrip CHR ''/'' base_url_arg,
             timeout = timeout_arg,
             verify_ssl = verify_ssl_arg,
             auth =
               (if truthy token then None
                else if truthy username \<and> truthy password
                  then Some (the username, the password)
                else None),
             headers =
               (if truthy token then
                  [(''X-Atlantis-Token'', the token),
                   (''Authorization'', ''Bearer '' @ the token)]
                else []) \<rparr>)"

text \<open>
  What \<^verbatim>\<open>requests.request\<close> is called with, and the part of its response that the
  client reads: the status code, the body text, and the outcome of \<^verbatim>\<open>response.json()\<close>.
\<close>

record request =
  req_method :: string
  req_url :: string
  req_params :: "(string \<times> pyval) list option"
  req_json :: "(string \<times> pyval) list option"
  req_auth :: "(string \<times> string) option"
  req_headers :: "(string \<times> string) list"
  req_verify :: bool
  req_timeout :: int

record response =
  status_code :: int
  resp_text :: string
  resp_json :: "exn + pyval"

text \<open>
  The network: a remote side of any state \<open>'s\<close>, which answers a request with a response
  or a transport exception, and the list of the requests sent so far.
\<close>

type_synonym 's transport = "request \<Rightarrow> 's \<Rightarrow> (exn + response) \<times> 's"

record 's net =
  server :: 's
  sent :: "request list"

definition requests_request ::
  "'s transport \<Rightarrow> request \<Rightarrow> 's net \<Rightarrow> (exn + response) \<times> 's net" where
  "requests_request tr rq w =
    (case tr rq (server w) of
      (r, s') \<Rightarrow> (r, \<lparr> server = s', sent = sent w @ [rq] \<rparr>))"

text \<open>
  \<^verbatim>\<open>Response.raise_for_status\<close> belongs to the \<^verbatim>\<open>requests\<close> library, not to the
  repository. It is modelled as the library documents it: an \<^verbatim>\<open>HTTPError\<close> for a
  client error (4xx) or a server error (5xx) status, nothing otherwise. \<open>None\<close>: the
  call returns.
\<close>

definition raise_for_status :: "response \<Rightarrow> exn option" where
  "raise_for_status r =
    (if 400 \<le> status_code r \<and> status_code r < 600
     then Some (HTTPError (status_code r) (resp_text r))
     else None)"

text \<open>\<^verbatim>\<open>AtlantisService._make_request\<close>.\<close>

definition make_request ::
  "atlantis_service \<Rightarrow> 's transport \<Rightarrow> string \<Rightarrow> string
    \<Rightarrow> (string \<times> pyval) list option \<Rightarrow> (string \<times> pyval) list option
    \<Rightarrow> 's net \<Rightarrow> (exn + pyval) \<times> 's net" where
  "make_request self tr method endpoint params json_data w =
    (let url = base_url self @ endpoint in
     case requests_request tr
            \<lparr> req_method = method, req_url = url, req_params = params,
              req_json = json_data, req_auth = auth self, req_headers = headers self,
              req_verify = verify_ssl self, req_timeout = timeout self \<rparr> w of
       (Inl e, w') \<Rightarrow> (Inl e, w')
     | (Inr response, w') \<Rightarrow>
         (case raise_for_status response of
            Some e \<Rightarrow> (Inl e, w')
          | None \<Rightarrow>
              if status_code response = 204 \<or> resp_text response = []
              then (Inr (PDict []), w')
              else (resp_json response, w')))"

text \<open>
  \<^verbatim>\<open>AtlantisService.plan\<close> and \<^verbatim>\<open>AtlantisService.apply\<close> (here
  \<open>atlantis_apply\<close>, since \<open>apply\<close> is a keyword). \<open>paths\<close> (a list of dictionaries) is
  passed through untouched.
\<close>

definition plan ::
  "atlantis_service \<Rightarrow> 's transport \<Rightarrow> string \<Rightarrow> string \<Rightarrow> string \<Rightarrow> pyval \<Rightarrow> int option
    \<Rightarrow> 's net \<Rightarrow> (exn + pyval) \<times> 's net" where
  "plan self tr repository ref vcs_type paths pr_number =
    (let payload =
           [(''Repository'', PStr repository),
            (''Ref'', PStr ref),
            (''Type'', PStr vcs_type),
            (''Paths'', paths)];
         payload =
           (case pr_number of
              Some n \<Rightarrow> payload @ [(''PR'', PInt n)]
            | None \<Rightarrow> payload)
     in make_request self tr ''POST'' ''/api/plan'' None (Some payload))"

definition atlantis_apply ::
  "atlantis_service \<Rightarrow> 's transport \<Rightarrow> string \<Rightarrow> string \<Rightarrow> string \<Rightarrow> pyval \<Rightarrow> int option
    \<Rightarrow> 's net \<Rightarrow> (exn + pyval) \<times> 's net" where
  "atlantis_apply self tr repository ref vcs_type paths pr_number =
    (let payload =
           [(''Repository'', PStr repository),
            (''Ref'', PStr ref),
            (''Type'', PStr vcs_type),
            (''Paths'', paths)];
         payload =
           (case pr_number of
              Some n \<Rightarrow> payload @ [(''PR'', PInt n)]
            | None \<Rightarrow> payload)
     in make_request self tr ''POST'' ''/api/apply'' None (Some payload))"


section \<open>The GitHub client (services/github/github.py)\<close>

text \<open>
  The objects of the PyGithub SDK, with the attributes the client reads. A repository
  and a pull request are handles; a reference has \<^verbatim>\<open>ref.object.sha\<close>, a commit
  \<^verbatim>\<open>commit.sha\<close> and \<^verbatim>\<open>commit.tree.sha\<close>, a tree \<^verbatim>\<open>tree.sha\<close> and its entries
  \<^verbatim>\<open>tree.tree\<close>, each with \<^verbatim>\<open>path\<close>, \<^verbatim>\<open>mode\<close>, \<^verbatim>\<open>type\<close> and \<^verbatim>\<open>sha\<close>.
\<close>

datatype repository = Repository string

datatype pull_request = PullRequest repository int

datatype comment = Comment int

record git_ref =
  ref_name :: string
  object_sha :: string

record git_commit =
  commit_sha :: string
  commit_tree_sha :: string

record git_tree_element =
  el_path :: string
  el_mode :: string
  el_type :: string
  el_sha :: string

record git_tree =
  tree_sha :: string
  tree_entries :: "git_tree_element list"

record git_blob =
  blob_sha :: string

text \<open>
  A tree entry as submitted to \<^verbatim>\<open>create_git_tree\<close>. The constructor of PyGithub is
  \<^verbatim>\<open>InputGitTreeElement(path, mode, type, content=NotSet, sha=NotSet)\<close>: an entry names its
  object either by \<open>in_sha\<close> or, through \<open>in_content\<close>, by the text of a blob that the
  server is to create; \<open>None\<close> is \<^verbatim>\<open>NotSet\<close>.
\<close>

record input_git_tree_element =
  in_path :: string
  in_mode :: string
  in_type :: string
  in_content :: "string option"
  in_sha :: "string option"

text \<open>
  The constructor called with four positional arguments, which is how the source calls
  it, in both push operations: the fourth argument is bound to \<^verbatim>\<open>content\<close>, and \<^verbatim>\<open>sha\<close>
  stays unset.
\<close>

definition InputGitTreeElement ::
  "string \<Rightarrow> string \<Rightarrow> string \<Rightarrow> string \<Rightarrow> input_git_tree_element" where
  "InputGitTreeElement path mode type_arg fourth =
    \<lparr> in_path = path, in_mode = mode, in_type = type_arg,
      in_content = Some fourth, in_sha = None \<rparr>"

text \<open>
  The SDK: every method the client calls, as a function of the state \<open>'s\<close> of the remote
  side that returns the method's value or the exception it raises, and the next state.
  Nothing is assumed of these functions.
\<close>

record 's sdk =
  sdk_get_repo :: "string \<Rightarrow> 's \<Rightarrow> (exn + repository) \<times> 's"
  sdk_get_git_ref :: "repository \<Rightarrow> string \<Rightarrow> 's \<Rightarrow> (exn + git_ref) \<times> 's"
  sdk_get_git_commit :: "repository \<Rightarrow> string \<Rightarrow> 's \<Rightarrow> (exn + git_commit) \<times> 's"
  sdk_get_git_tree :: "repository \<Rightarrow> string \<Rightarrow> bool \<Rightarrow> 's \<Rightarrow> (exn + git_tree) \<times> 's"
  sdk_create_git_blob :: "repository \<Rightarrow> string \<Rightarrow> string \<Rightarrow> 's \<Rightarrow> (exn + git_blob) \<times> 's"
  sdk_create_git_tree ::
    "repository \<Rightarrow> input_git_tree_element list \<Rightarrow> git_tree \<Rightarrow> 's \<Rightarrow> (exn + git_tree) \<times> 's"
  sdk_create_git_commit ::
    "repository \<Rightarrow> string \<Rightarrow> git_tree \<Rightarrow> git_commit list \<Rightarrow> 's \<Rightarrow> (exn + git_commit) \<times> 's"
  sdk_ref_edit :: "git_ref \<Rightarrow> string \<Rightarrow> 's \<Rightarrow> (exn + unit) \<times> 's"
  sdk_create_git_ref :: "repository \<Rightarrow> string \<Rightarrow> string \<Rightarrow> 's \<Rightarrow> (exn + git_ref) \<times> 's"
  sdk_get_pull :: "repository \<Rightarrow> int \<Rightarrow> 's \<Rightarrow> (exn + pull_request) \<times> 's"
  sdk_create_issue_comment :: "pull_request \<Rightarrow> string \<Rightarrow> 's \<Rightarrow> (exn + comment) \<times> 's"

text \<open>One SDK call that the client made: its arguments and its outcome.\<close>

datatype event =
    GetRepo string "exn + repository"
  | GetGitRef repository string "exn + git_ref"
  | GetGitCommit repository string "exn + git_commit"
  | GetGitTree repository string bool "exn + git_tree"
  | CreateGitBlob repository string string "exn + git_blob"
  | CreateGitTree repository "input_git_tree_element list" git_tree "exn + git_tree"
  | CreateGitCommit repository string git_tree "git_commit list" "exn + git_commit"
  | RefEdit git_ref string "exn + unit"
  | CreateGitRef repository string string "exn + git_ref"
  | GetPull repository int "exn + pull_request"
  | CreateIssueComment pull_request string "exn + comment"

text \<open>The world of the GitHub client: the remote side and the calls made so far.\<close>

record 's world =
  remote :: 's
  trace :: "event list"

text \<open>A call of an SDK method: it runs on the remote side and is recorded with its outcome.\<close>

definition call ::
  "('s \<Rightarrow> (exn + 'a) \<times> 's) \<Rightarrow> ((exn + 'a) \<Rightarrow> event) \<Rightarrow> 's world \<Rightarrow> (exn + 'a) \<times> 's world" where
  "call f ev w =
    (case f (remote w) of (r, s') \<Rightarrow> (r, \<lparr> remote = s', trace = trace w @ [ev r] \<rparr>))"

definition get_repo :: "'s sdk \<Rightarrow> string \<Rightarrow> 's world \<Rightarrow> (exn + repository) \<times> 's world" where
  "get_repo gh name = call (sdk_get_repo gh name) (GetRepo name)"

definition get_git_ref ::
  "'s sdk \<Rightarrow> repository \<Rightarrow> string \<Rightarrow> 's world \<Rightarrow> (exn + git_ref) \<times> 's world" where
  "get_git_ref gh r name = call (sdk_get_git_ref gh r name) (GetGitRef r name)"

definition get_git_commit ::
  "'s sdk \<Rightarrow> repository \<Rightarrow> string \<Rightarrow> 's world \<Rightarrow> (exn + git_commit) \<times> 's world" where
  "get_git_commit gh r sha = call (sdk_get_git_commit gh r sha) (GetGitCommit r sha)"

definition get_git_tree ::
  "'s sdk \<Rightarrow> repository \<Rightarrow> string \<Rightarrow> bool \<Rightarrow> 's world \<Rightarrow> (exn + git_tree) \<times> 's world" where
  "get_git_tree gh r sha recursive =
    call (sdk_get_git_tree gh r sha recursive) (GetGitTree r sha recursive)"

definition create_git_blob ::
  "'s sdk \<Rightarrow> repository \<Rightarrow> string \<Rightarrow> string \<Rightarrow> 's world \<Rightarrow> (exn + git_blob) \<times> 's world" where
  "create_git_blob gh r content encoding =
    call (sdk_create_git_blob gh r content encoding) (CreateGitBlob r content encoding)"

definition create_git_tree ::
  "'s sdk \<Rightarrow> repository \<Rightarrow> input_git_tree_element list \<Rightarrow> git_tree \<Rightarrow> 's world
    \<Rightarrow> (exn + git_tree) \<times> 's world" where
  "create_git_tree gh r elements base_tree =
    call (sdk_create_git_tree gh r elements base_tree) (CreateGitTree r elements base_tree)"

definition create_git_commit ::
  "'s sdk \<Rightarrow> repository \<Rightarrow> string \<Rightarrow> git_tree \<Rightarrow> git_commit list \<Rightarrow> 's world
    \<Rightarrow> (exn + git_commit) \<times> 's world" where
  "create_git_commit gh r message tree parents =
    call (sdk_create_git_commit gh r message tree parents)
      (CreateGitCommit r message tree parents)"

definition ref_edit :: "'s sdk \<Rightarrow> git_ref \<Rightarrow> string \<Rightarrow> 's world \<Rightarrow> (exn + unit) \<times> 's world" where
  "ref_edit gh ref sha = call (sdk_ref_edit gh ref sha) (RefEdit ref sha)"

definition create_git_ref ::
  "'s sdk \<Rightarrow> repository \<Rightarrow> string \<Rightarrow> string \<Rightarrow> 's world \<Rightarrow> (exn + git_ref) \<times> 's world" where
  "create_git_ref gh r name sha = call (sdk_create_git_ref gh r name sha) (CreateGitRef r name sha)"

definition get_pull ::
  "'s sdk \<Rightarrow> repository \<Rightarrow> int \<Rightarrow> 's world \<Rightarrow> (exn + pull_request) \<times> 's world" where
  "get_pull gh r number = call (sdk_get_pull gh r number) (GetPull r number)"

text \<open>
  The call \<^verbatim>\<open>pr.create_review_comment(body=, commit_id=, path=, line=, side=)\<close> of the
  source. The method of PyGithub is
  \<^verbatim>\<open>create_review_comment(body, commit, path, line, side, ...)\<close>, with a commit object
  for \<^verbatim>\<open>commit\<close>: it has no parameter \<^verbatim>\<open>commit_id\<close>, so Python raises \<^verbatim>\<open>TypeError\<close>
  when it binds the arguments, before the method runs and before any request is made.
\<close>

definition create_review_comment ::
  "pull_request \<Rightarrow> string \<Rightarrow> string \<Rightarrow> string \<Rightarrow> int \<Rightarrow> string option \<Rightarrow> 's world
    \<Rightarrow> (exn + comment) \<times> 's world" where
  "create_review_comment pr body commit_id path line side w =
    (Inl (TypeError
       (''PullRequest.create_review_comment() got an unexpected keyword argument ''
          @ [CHR 0x27] @ ''commit_id'' @ [CHR 0x27])), w)"

definition create_issue_comment ::
  "'s sdk \<Rightarrow> pull_request \<Rightarrow> string \<Rightarrow> 's world \<Rightarrow> (exn + comment) \<times> 's world" where
  "create_issue_comment gh pr body =
    call (sdk_create_issue_comment gh pr body) (CreateIssueComment pr body)"

text \<open>\<^verbatim>\<open>GitHubService.get_repository\<close>; \<open>gh\<close> is \<^verbatim>\<open>self.github\<close>.\<close>

definition get_repository ::
  "'s sdk \<Rightarrow> string \<Rightarrow> string \<Rightarrow> 's world \<Rightarrow> (exn + repository) \<times> 's world" where
  "get_repository gh owner repo = get_repo gh (owner @ ''/'' @ repo)"

text \<open>
  The loop \<^verbatim>\<open>for element in tree.tree: if <keep element>: tree_elements.append(...)\<close> of
  both push operations: for an entry that is kept, the source appends
  \<^verbatim>\<open>InputGitTreeElement(element.path, element.mode, element.type, element.sha)\<close> to
  \<open>tree_elements\<close>.
\<close>

fun keep_elements ::
  "(git_tree_element \<Rightarrow> bool) \<Rightarrow> git_tree_element list \<Rightarrow> input_git_tree_element list
    \<Rightarrow> input_git_tree_element list" where
  "keep_elements keep [] tree_elements = tree_elements"
| "keep_elements keep (element # rest) tree_elements =
    keep_elements keep rest
      (if keep element
       then tree_elements @
         [InputGitTreeElement (el_path element) (el_mode element) (el_type element)
            (el_sha element)]
       else tree_elements)"

text \<open>\<^verbatim>\<open>GitHubService.push_to_pull_request\<close>. \<open>pr_number\<close> is accepted and not used.\<close>

definition push_to_pull_request ::
  "'s sdk \<Rightarrow> string \<Rightarrow> string \<Rightarrow> string \<Rightarrow> string \<Rightarrow> string \<Rightarrow> string \<Rightarrow> int option
    \<Rightarrow> 's world \<Rightarrow> (exn + (string \<times> pyval) list) \<times> 's world" where
  "push_to_pull_request gh owner repo branch file_path content message pr_number =
    and_then (get_repository gh owner repo) (\<lambda>repository.
    and_then (get_git_ref gh repository (''heads/'' @ branch)) (\<lambda>ref.
    and_then (get_git_commit gh repository (object_sha ref)) (\<lambda>commit.
    and_then (get_git_tree gh repository (commit_tree_sha commit) True) (\<lambda>tree.
    and_then (create_git_blob gh repository content ''utf-8'') (\<lambda>blob.
    let tree_elements =
          keep_elements (\<lambda>element. el_path element \<noteq> file_path) (tree_entries tree) [];
        tree_elements =
          tree_elements @ [InputGitTreeElement file_path ''100644'' ''blob'' (blob_sha blob)]
    in
    and_then (create_git_tree gh repository tree_elements tree) (\<lambda>new_tree.
    and_then (create_git_commit gh repository message new_tree [commit]) (\<lambda>new_commit.
    and_then (ref_edit gh ref (commit_sha new_commit)) (\<lambda>_.
    returns
      [(''commit_sha'', PStr (commit_sha new_commit)),
       (''branch'', PStr branch),
       (''file_path'', PStr file_path),
       (''message'', PStr message)]))))))))"

text \<open>
  \<^verbatim>\<open>GitHubService.create_branch\<close>. The first \<^verbatim>\<open>try\<close> block looks the new branch up: a
  found reference raises the \<^verbatim>\<open>ValueError\<close> (which \<^verbatim>\<open>except ValueError: raise\<close> lets
  through), a \<^verbatim>\<open>GithubException\<close> is swallowed when its status is 404 and raised again
  otherwise, any other exception is not caught. The second block looks the base branch
  up under \<^verbatim>\<open>except Exception\<close>. \<open>CHR 0x27\<close> is the single quote of the messages.
\<close>

definition create_branch ::
  "'s sdk \<Rightarrow> string \<Rightarrow> string \<Rightarrow> string \<Rightarrow> string
    \<Rightarrow> 's world \<Rightarrow> (exn + (string \<times> pyval) list) \<times> 's world" where
  "create_branch gh owner repo branch base_branch =
    and_then (get_repository gh owner repo) (\<lambda>repository.
    and_then
      (\<lambda>w. case get_git_ref gh repository (''heads/'' @ branch) w of
         (Inr found, w') \<Rightarrow>
           (Inl (ValueError
              (''Branch '' @ [CHR 0x27] @ branch @ [CHR 0x27] @ '' already exists'')), w')
       | (Inl e, w') \<Rightarrow>
           (case e of
              GithubException status m \<Rightarrow>
                if status \<noteq> 404 then (Inl e, w') else (Inr (), w')
            | _ \<Rightarrow> (Inl e, w'))) (\<lambda>_.
    and_then
      (\<lambda>w. case get_git_ref gh repository (''heads/'' @ base_branch) w of
         (Inr base_ref, w') \<Rightarrow> (Inr base_ref, w')
       | (Inl e, w') \<Rightarrow>
           (Inl (ValueError
              (''Base branch '' @ [CHR 0x27] @ base_branch @ [CHR 0x27] @ '' not found: ''
                @ str_exn e)), w')) (\<lambda>base_ref.
    and_then
      (create_git_ref gh repository (''refs/heads/'' @ branch) (object_sha base_ref)) (\<lambda>_.
    returns
      [(''branch'', PStr branch),
       (''base_branch'', PStr base_branch),
       (''commit_sha'', PStr (object_sha base_ref))]))))"

text \<open>
  The loop \<^verbatim>\<open>for file_path, content in files.items()\<close> of
  \<^verbatim>\<open>push_files_to_branch\<close>: one blob per file, and its entry appended.
\<close>

fun add_files ::
  "'s sdk \<Rightarrow> repository \<Rightarrow> (string \<times> string) list \<Rightarrow> input_git_tree_element list
    \<Rightarrow> 's world \<Rightarrow> (exn + input_git_tree_element list) \<times> 's world" where
  "add_files gh repository [] tree_elements w = (Inr tree_elements, w)"
| "add_files gh repository ((file_path, content) # rest) tree_elements w =
    (case create_git_blob gh repository content ''utf-8'' w of
       (Inl e, w') \<Rightarrow> (Inl e, w')
     | (Inr blob, w') \<Rightarrow>
         add_files gh repository rest
           (tree_elements @
              [InputGitTreeElement file_path ''100644'' ''blob'' (blob_sha blob)]) w')"

text \<open>
  \<^verbatim>\<open>GitHubService.push_files_to_branch\<close>. \<open>files\<close> is the dictionary in insertion order:
  an association list, whose keys are distinct.
\<close>

definition push_files_to_branch ::
  "'s sdk \<Rightarrow> string \<Rightarrow> string \<Rightarrow> string \<Rightarrow> (string \<times> string) list \<Rightarrow> string
    \<Rightarrow> 's world \<Rightarrow> (exn + (string \<times> pyval) list) \<times> 's world" where
  "push_files_to_branch gh owner repo branch files message =
    and_then (get_repository gh owner repo) (\<lambda>repository.
    and_then
      (\<lambda>w. case get_git_ref gh repository (''heads/'' @ branch) w of
         (Inr branch_ref, w') \<Rightarrow> (Inr branch_ref, w')
       | (Inl e, w') \<Rightarrow>
           (Inl (ValueError
              (''Branch '' @ [CHR 0x27] @ branch @ [CHR 0x27] @ '' not found: ''
                @ str_exn e)), w')) (\<lambda>branch_ref.
    and_then (get_git_commit gh repository (object_sha branch_ref)) (\<lambda>commit.
    and_then (get_git_tree gh repository (commit_tree_sha commit) True) (\<lambda>tree.
    let file_paths = set (map fst files);
        tree_elements =
          keep_elements (\<lambda>element. el_path element \<notin> file_paths) (tree_entries tree) []
    in
    and_then (add_files gh repository files tree_elements) (\<lambda>tree_elements.
    and_then (create_git_tree gh repository tree_elements tree) (\<lambda>new_tree.
    and_then (create_git_commit gh repository message new_tree [commit]) (\<lambda>new_commit.
    and_then (ref_edit gh branch_ref (commit_sha new_commit)) (\<lambda>_.
    returns
      [(''commit_sha'', PStr (commit_sha new_commit)),
       (''branch'', PStr branch),
       (''files'', PList (map (\<lambda>(file_path, content). PStr file_path) files)),
       (''message'', PStr message)]))))))))"

text \<open>
  \<^verbatim>\<open>GitHubService.create_pull_request_comment\<close>: the test is
  \<^verbatim>\<open>commit_id and path and line is not None\<close>.
\<close>

definition create_pull_request_comment ::
  "'s sdk \<Rightarrow> string \<Rightarrow> string \<Rightarrow> int \<Rightarrow> string \<Rightarrow> string option \<Rightarrow> string option
    \<Rightarrow> int option \<Rightarrow> string option \<Rightarrow> 's world \<Rightarrow> (exn + comment) \<times> 's world" where
  "create_pull_request_comment gh owner repo pr_number body commit_id path line side =
    and_then (get_repository gh owner repo) (\<lambda>repository.
    and_then (get_pull gh repository pr_number) (\<lambda>pr.
      if truthy commit_id \<and> truthy path \<and> line \<noteq> None
      then create_review_comment pr body (the commit_id) (the path) (the line) side
      else create_issue_comment gh pr body))"

text \<open>
  A mock of the SDK in the manner of \<^verbatim>\<open>tests/test_github.py\<close>, for running the client
  on concrete inputs: \<open>refs\<close> answers the reference lookups, \<open>tree\<close> is the current tree,
  every other method succeeds.
\<close>

definition mock_sdk :: "(string \<Rightarrow> exn + git_ref) \<Rightarrow> git_tree \<Rightarrow> unit sdk" where
  "mock_sdk refs tree =
    \<lparr> sdk_get_repo = (\<lambda>name s. (Inr (Repository name), s)),
      sdk_get_git_ref = (\<lambda>r name s. (refs name, s)),
      sdk_get_git_commit =
        (\<lambda>r sha s. (Inr \<lparr> commit_sha = sha, commit_tree_sha = ''tree_sha'' \<rparr>, s)),
      sdk_get_git_tree = (\<lambda>r sha recursive s. (Inr tree, s)),
      sdk_create_git_blob =
        (\<lambda>r content encoding s. (Inr \<lparr> blob_sha = ''blob:'' @ content \<rparr>, s)),
      sdk_create_git_tree =
        (\<lambda>r elements base_tree s.
           (Inr \<lparr> tree_sha = ''new_tree_sha'', tree_entries = [] \<rparr>, s)),
      sdk_create_git_commit =
        (\<lambda>r message t parents s.
           (Inr \<lparr> commit_sha = ''new_commit_sha'', commit_tree_sha = tree_sha t \<rparr>, s)),
      sdk_ref_edit = (\<lambda>ref sha s. (Inr (), s)),
      sdk_create_git_ref =
        (\<lambda>r name sha s. (Inr \<lparr> ref_name = name, object_sha = sha \<rparr>, s)),
      sdk_get_pull = (\<lambda>r number s. (Inr (PullRequest r number), s)),
      sdk_create_issue_comment = (\<lambda>pr body s. (Inr (Comment 2), s)) \<rparr>"

section \<open>Properties of the Atlantis client\<close>

subsection \<open>Helper lemmas\<close>

lemma rstrip_append_replicate:
  "\<exists>n. s = rstrip c s @ replicate n c"
proof -
  let ?t = "takeWhile (\<lambda>x. x = c) (rev s)"
  have "?t = replicate (length ?t) c"
    by (metis (mono_tags, lifting) replicate_length_same set_takeWhileD)
  then have "rev s = replicate (length ?t) c @ dropWhile (\<lambda>x. x = c) (rev s)"
    by (metis takeWhile_dropWhile_id)
  then have "s = rev (dropWhile (\<lambda>x. x = c) (rev s)) @ replicate (length ?t) c"
    by (metis rev_append rev_replicate rev_rev_ident)
  then show ?thesis unfolding rstrip_def by blast
qed

lemma rstrip_no_trailing: "\<not> suffix [c] (rstrip c s)"
proof
  assume "suffix [c] (rstrip c s)"
  then obtain ps where "rstrip c s = ps @ [c]" by (auto simp: suffix_def)
  then have "dropWhile (\<lambda>x. x = c) (rev s) = c # rev ps"
    unfolding rstrip_def by (metis rev.simps(2) rev_rev_ident rev_append rev_singleton_conv)
  then show False
    by (metis (full_types) hd_dropWhile list.distinct(1) list.sel(1))
qed

lemma rstrip_unchanged: "\<not> suffix [c] s \<Longrightarrow> rstrip c s = s"
proof -
  assume a: "\<not> suffix [c] s"
  show ?thesis
  proof (cases "rev s")
    case Nil then show ?thesis by (simp add: rstrip_def)
  next
    case (Cons x xs)
    then have s: "s = rev xs @ [x]" by (metis rev.simps(2) rev_rev_ident)
    with a have "x \<noteq> c" by (auto simp: suffix_def)
    with Cons show ?thesis by (simp add: rstrip_def s)
  qed
qed

lemma make_request_sent:
  "sent (snd (make_request self tr method endpoint params json_data w)) =
     sent w @ [\<lparr> req_method = method, req_url = base_url self @ endpoint,
                 req_params = params, req_json = json_data, req_auth = auth self,
                 req_headers = headers self, req_verify = verify_ssl self,
                 req_timeout = timeout self \<rparr>]"
  by (simp add: make_request_def requests_request_def Let_def
      split: prod.splits sum.splits option.splits)

subsection \<open>The stored endpoint\<close>

text \<open>
  Claim C9. For a non-empty endpoint (and credentials that let the construction pass), the
  client is constructed and stores the endpoint with all its trailing slashes removed: the
  endpoint is the stored one followed by slashes only, the stored one does not end in a
  slash, and an endpoint that does not end in a slash is stored as it is. Every request
  that \<open>make_request\<close> sends goes to the stored endpoint followed by the path.
\<close>

theorem endpoint_trailing_slashes_stripped:
  assumes "b \<noteq> []" and "truthy u \<or> truthy p \<or> truthy t"
  shows "\<exists>self. AtlantisService b u p t v tmo = Inr self
     \<and> base_url self = rstrip CHR ''/'' b
     \<and> (\<exists>n. b = base_url self @ replicate n CHR ''/'')
     \<and> \<not> suffix ''/'' (base_url self)
     \<and> (\<not> suffix ''/'' b \<longrightarrow> base_url self = b)
     \<and> (\<forall>tr method endpoint params json_data w.
          map req_url (sent (snd (make_request self tr method endpoint params json_data
            (w :: 's net)))) =
          map req_url (sent w) @ [rstrip CHR ''/'' b @ endpoint])"
proof -
  from assms obtain self where s: "AtlantisService b u p t v tmo = Inr self"
    and b: "base_url self = rstrip CHR ''/'' b"
    by (auto simp: AtlantisService_def)
  have "\<exists>n. b = base_url self @ replicate n CHR ''/''"
    unfolding b by (rule rstrip_append_replicate)
  moreover have "\<not> suffix ''/'' (base_url self)"
    unfolding b by (rule rstrip_no_trailing)
  moreover have "\<not> suffix ''/'' b \<longrightarrow> base_url self = b"
    unfolding b by (simp add: rstrip_unchanged)
  moreover have "\<forall>tr method endpoint params json_data w.
          map req_url (sent (snd (make_request self tr method endpoint params json_data
            (w :: 's net)))) =
          map req_url (sent w) @ [rstrip CHR ''/'' b @ endpoint]"
    by (simp add: make_request_sent b)
  ultimately show ?thesis using s b by blast
qed


text \<open>The example of the specification: \<^verbatim>\<open>"https://x.com/"\<close> is stored as \<^verbatim>\<open>"https://x.com"\<close>.\<close>

theorem endpoint_trailing_slashes_stripped_witness:
  "''https://x.com/'' \<noteq> [] \<and> truthy (Some ''secret'')
   \<and> (\<exists>self. AtlantisService ''https://x.com/'' None None (Some ''secret'') True 30 = Inr self
        \<and> base_url self = ''https://x.com''
        \<and> map req_url (sent (snd (make_request self
             (\<lambda>rq s. (Inr \<lparr> status_code = 200, resp_text = ''{}'', resp_json = Inr (PDict []) \<rparr>, s))
             ''GET'' ''/api/version'' None None \<lparr> server = (), sent = [] \<rparr>)))
          = [''https://x.com/api/version''])"
proof -
  have h1: "''https://x.com/'' \<noteq> []" by simp
  have h2: "truthy None \<or> truthy None \<or> truthy (Some ''secret'')" by (simp add: truthy_def)
  have e: "rstrip CHR ''/'' ''https://x.com/'' = ''https://x.com''" by (simp add: rstrip_def)
  from endpoint_trailing_slashes_stripped [OF h1 h2, of True 30, where ?'s = unit]
  obtain self where a: "AtlantisService ''https://x.com/'' None None (Some ''secret'') True 30 = Inr self"
    and b: "base_url self = rstrip CHR ''/'' ''https://x.com/''"
    and c: "\<And>tr method endpoint params json_data w.
          map req_url (sent (snd (make_request self tr method endpoint params json_data
            (w :: unit net)))) =
          map req_url (sent w) @ [rstrip CHR ''/'' ''https://x.com/'' @ endpoint]"
    by blast
  have "map req_url (sent (snd (make_request self
             (\<lambda>rq s. (Inr \<lparr> status_code = 200, resp_text = ''{}'', resp_json = Inr (PDict []) \<rparr>, s))
             ''GET'' ''/api/version'' None None \<lparr> server = (), sent = [] \<rparr>)))
          = [''https://x.com/api/version'']"
    unfolding c e by simp
  with a b e h1 show ?thesis by (simp add: truthy_def)
qed


subsection \<open>The construction contract\<close>

text \<open>
  Claim C5. The claim has the construction fail when neither a token nor a
  username/password pair is given. With a username alone there is neither, and the
  construction does not fail: the test of the source is
  \<^verbatim>\<open>not username and not password and not token\<close>. The client it returns has no
  credential and no header.
\<close>

theorem username_only_construction_succeeds:
  "AtlantisService ''https://atlantis.example.com'' (Some ''user'') None None True 30 =
     Inr \<lparr> base_url = ''https://atlantis.example.com'', timeout = 30, verify_ssl = True,
           auth = None, headers = [] \<rparr>"
  by (simp add: AtlantisService_def truthy_def rstrip_def)

subsection \<open>The bodies of plan and apply\<close>

lemma plan_sent:
  "sent (snd (plan self tr repository ref vcs_type paths pr_number w)) =
     sent w @ [\<lparr> req_method = ''POST'', req_url = base_url self @ ''/api/plan'',
       req_params = None,
       req_json = Some ([(''Repository'', PStr repository), (''Ref'', PStr ref),
          (''Type'', PStr vcs_type), (''Paths'', paths)] @
          (case pr_number of None \<Rightarrow> [] | Some n \<Rightarrow> [(''PR'', PInt n)])),
       req_auth = auth self, req_headers = headers self, req_verify = verify_ssl self,
       req_timeout = timeout self \<rparr>]"
  by (cases pr_number) (simp_all add: plan_def make_request_sent)

lemma apply_sent:
  "sent (snd (atlantis_apply self tr repository ref vcs_type paths pr_number w)) =
     sent w @ [\<lparr> req_method = ''POST'', req_url = base_url self @ ''/api/apply'',
       req_params = None,
       req_json = Some ([(''Repository'', PStr repository), (''Ref'', PStr ref),
          (''Type'', PStr vcs_type), (''Paths'', paths)] @
          (case pr_number of None \<Rightarrow> [] | Some n \<Rightarrow> [(''PR'', PInt n)])),
       req_auth = auth self, req_headers = headers self, req_verify = verify_ssl self,
       req_timeout = timeout self \<rparr>]"
  by (cases pr_number) (simp_all add: atlantis_apply_def make_request_sent)

text \<open>
  Claim C6. \<open>plan\<close> and \<open>atlantis_apply\<close> each send one request, a POST to
  \<^verbatim>\<open>/api/plan\<close> or \<^verbatim>\<open>/api/apply\<close>, whose JSON body has the keys \<^verbatim>\<open>Repository\<close>,
  \<^verbatim>\<open>Ref\<close>, \<^verbatim>\<open>Type\<close> and \<^verbatim>\<open>Paths\<close>, in this order and bound to the arguments, followed
  by the key \<^verbatim>\<open>PR\<close>, bound to the number, exactly when a PR number is given.
\<close>

theorem plan_apply_body_keys:
  "(\<exists>rq payload.
      sent (snd (plan self tr repository ref vcs_type paths pr_number w)) = sent w @ [rq]
    \<and> req_method rq = ''POST'' \<and> req_url rq = base_url self @ ''/api/plan''
    \<and> req_json rq = Some payload
    \<and> map fst payload = [''Repository'', ''Ref'', ''Type'', ''Paths''] @
         (case pr_number of None \<Rightarrow> [] | Some n \<Rightarrow> [''PR''])
    \<and> map_of payload ''Repository'' = Some (PStr repository)
    \<and> map_of payload ''Ref'' = Some (PStr ref)
    \<and> map_of payload ''Type'' = Some (PStr vcs_type)
    \<and> map_of payload ''Paths'' = Some paths
    \<and> map_of payload ''PR'' = map_option PInt pr_number
    \<and> ((''PR'' \<in> fst ` set payload) = (pr_number \<noteq> None)))
  \<and> (\<exists>rq payload.
      sent (snd (atlantis_apply self tr repository ref vcs_type paths pr_number w)) = sent w @ [rq]
    \<and> req_method rq = ''POST'' \<and> req_url rq = base_url self @ ''/api/apply''
    \<and> req_json rq = Some payload
    \<and> map fst payload = [''Repository'', ''Ref'', ''Type'', ''Paths''] @
         (case pr_number of None \<Rightarrow> [] | Some n \<Rightarrow> [''PR''])
    \<and> map_of payload ''Repository'' = Some (PStr repository)
    \<and> map_of payload ''Ref'' = Some (PStr ref)
    \<and> map_of payload ''Type'' = Some (PStr vcs_type)
    \<and> map_of payload ''Paths'' = Some paths
    \<and> map_of payload ''PR'' = map_option PInt pr_number
    \<and> ((''PR'' \<in> fst ` set payload) = (pr_number \<noteq> None)))"
proof (intro conjI)
  show "\<exists>rq payload.
      sent (snd (plan self tr repository ref vcs_type paths pr_number w)) = sent w @ [rq]
    \<and> req_method rq = ''POST'' \<and> req_url rq = base_url self @ ''/api/plan''
    \<and> req_json rq = Some payload
    \<and> map fst payload = [''Repository'', ''Ref'', ''Type'', ''Paths''] @
         (case pr_number of None \<Rightarrow> [] | Some n \<Rightarrow> [''PR''])
    \<and> map_of payload ''Repository'' = Some (PStr repository)
    \<and> map_of payload ''Ref'' = Some (PStr ref)
    \<and> map_of payload ''Type'' = Some (PStr vcs_type)
    \<and> map_of payload ''Paths'' = Some paths
    \<and> map_of payload ''PR'' = map_option PInt pr_number
    \<and> ((''PR'' \<in> fst ` set payload) = (pr_number \<noteq> None))"
    unfolding plan_sent by (cases pr_number) simp_all
  show "\<exists>rq payload.
      sent (snd (atlantis_apply self tr repository ref vcs_type paths pr_number w)) = sent w @ [rq]
    \<and> req_method rq = ''POST'' \<and> req_url rq = base_url self @ ''/api/apply''
    \<and> req_json rq = Some payload
    \<and> map fst payload = [''Repository'', ''Ref'', ''Type'', ''Paths''] @
         (case pr_number of None \<Rightarrow> [] | Some n \<Rightarrow> [''PR''])
    \<and> map_of payload ''Repository'' = Some (PStr repository)
    \<and> map_of payload ''Ref'' = Some (PStr ref)
    \<and> map_of payload ''Type'' = Some (PStr vcs_type)
    \<and> map_of payload ''Paths'' = Some paths
    \<and> map_of payload ''PR'' = map_option PInt pr_number
    \<and> ((''PR'' \<in> fst ` set payload) = (pr_number \<noteq> None))"
    unfolding apply_sent by (cases pr_number) simp_all
qed

subsection \<open>The outcome of a request\<close>

text \<open>
  Claim C7, as stated, has every response whose status is not 2xx raise. A response with
  status 304 and an empty body does not: \<^verbatim>\<open>raise_for_status\<close> returns, and the result
  is the empty dictionary.
\<close>

theorem make_request_304_counterexample:
  "fst (make_request
      \<lparr> base_url = ''https://x.com'', timeout = 30, verify_ssl = True, auth = None,
        headers = [(''X-Atlantis-Token'', ''secret''), (''Authorization'', ''Bearer secret'')] \<rparr>
      (\<lambda>rq s. (Inr \<lparr> status_code = 304, resp_text = [],
                      resp_json = Inl (OtherException ''JSONDecodeError'') \<rparr>, s))
      ''GET'' ''/api/projects'' None None \<lparr> server = (), sent = [] \<rparr>)
   = Inr (PDict [])"
  by (simp add: make_request_def requests_request_def raise_for_status_def)

text \<open>
  Claim C7, amended. Whatever the method, when the transport answers with a response:
  a 4xx or 5xx status raises the \<^verbatim>\<open>HTTPError\<close> of that response; any other response
  with status 204 or an empty body gives the empty dictionary; any other response gives
  the outcome of \<^verbatim>\<open>response.json()\<close>.
\<close>

theorem make_request_outcome:
  assumes "tr \<lparr> req_method = http_method, req_url = base_url self @ endpoint,
                req_params = params, req_json = json_data, req_auth = auth self,
                req_headers = headers self, req_verify = verify_ssl self,
                req_timeout = timeout self \<rparr> (server w) = (Inr resp, s')"
  shows "fst (make_request self tr http_method endpoint params json_data w) =
     (if 400 \<le> status_code resp \<and> status_code resp < 600
        then Inl (HTTPError (status_code resp) (resp_text resp))
      else if status_code resp = 204 \<or> resp_text resp = [] then Inr (PDict [])
      else resp_json resp)"
  using assms
  by (simp add: make_request_def requests_request_def raise_for_status_def)

text \<open>One response for each of the three cases.\<close>

theorem make_request_outcome_witness:
  "fst (make_request
      \<lparr> base_url = ''https://x.com'', timeout = 30, verify_ssl = True, auth = None,
        headers = [] \<rparr>
      (\<lambda>rq s. (Inr \<lparr> status_code = 404, resp_text = ''not found'',
                      resp_json = Inl (OtherException ''JSONDecodeError'') \<rparr>, s))
      ''DELETE'' ''/api/locks'' None None \<lparr> server = (), sent = [] \<rparr>)
   = Inl (HTTPError 404 ''not found'')
  \<and> fst (make_request
      \<lparr> base_url = ''https://x.com'', timeout = 30, verify_ssl = True, auth = None,
        headers = [] \<rparr>
      (\<lambda>rq s. (Inr \<lparr> status_code = 204, resp_text = ''ignored'',
                      resp_json = Inr (PStr ''ignored'') \<rparr>, s))
      ''DELETE'' ''/api/locks'' None None \<lparr> server = (), sent = [] \<rparr>)
   = Inr (PDict [])
  \<and> fst (make_request
      \<lparr> base_url = ''https://x.com'', timeout = 30, verify_ssl = True, auth = None,
        headers = [] \<rparr>
      (\<lambda>rq s. (Inr \<lparr> status_code = 200, resp_text = ''{}'',
                      resp_json = Inr (PDict [(''version'', PStr ''0.27'')]) \<rparr>, s))
      ''GET'' ''/api/version'' None None \<lparr> server = (), sent = [] \<rparr>)
   = Inr (PDict [(''version'', PStr ''0.27'')])"
  using
    make_request_outcome
      [where tr = "\<lambda>rq s. (Inr \<lparr> status_code = 404, resp_text = ''not found'',
                      resp_json = Inl (OtherException ''JSONDecodeError'') \<rparr>, s)"
        and resp = "\<lparr> status_code = 404, resp_text = ''not found'',
                      resp_json = Inl (OtherException ''JSONDecodeError'') \<rparr>"
        and s' = "()" and w = "\<lparr> server = (), sent = [] \<rparr>"
        and endpoint = "''/api/locks''" and http_method = "''DELETE''"
        and params = None and json_data = None
        and self = "\<lparr> base_url = ''https://x.com'', timeout = 30, verify_ssl = True,
                       auth = None, headers = [] \<rparr>"]
    make_request_outcome
      [where tr = "\<lambda>rq s. (Inr \<lparr> status_code = 204, resp_text = ''ignored'',
                      resp_json = Inr (PStr ''ignored'') \<rparr>, s)"
        and resp = "\<lparr> status_code = 204, resp_text = ''ignored'',
                      resp_json = Inr (PStr ''ignored'') \<rparr>"
        and s' = "()" and w = "\<lparr> server = (), sent = [] \<rparr>"
        and endpoint = "''/api/locks''" and http_method = "''DELETE''"
        and params = None and json_data = None
        and self = "\<lparr> base_url = ''https://x.com'', timeout = 30, verify_ssl = True,
                       auth = None, headers = [] \<rparr>"]
    make_request_outcome
      [where tr = "\<lambda>rq s. (Inr \<lparr> status_code = 200, resp_text = ''{}'',
                      resp_json = Inr (PDict [(''version'', PStr ''0.27'')]) \<rparr>, s)"
        and resp = "\<lparr> status_code = 200, resp_text = ''{}'',
                      resp_json = Inr (PDict [(''version'', PStr ''0.27'')]) \<rparr>"
        and s' = "()" and w = "\<lparr> server = (), sent = [] \<rparr>"
        and endpoint = "''/api/version''" and http_method = "''GET''"
        and params = None and json_data = None
        and self = "\<lparr> base_url = ''https://x.com'', timeout = 30, verify_ssl = True,
                       auth = None, headers = [] \<rparr>"]
  by simp

subsection \<open>Half of a username/password pair\<close>

text \<open>
  Claim C10. With a non-empty endpoint, no token, and a username without a password or a
  password without a username, the construction succeeds; the client has no basic-auth
  credential and no header, and every request it sends carries neither.
\<close>

theorem partial_basic_credentials_unauthenticated:
  assumes "b \<noteq> []" and "\<not> truthy t"
    and "(truthy u \<and> \<not> truthy p) \<or> (\<not> truthy u \<and> truthy p)"
  shows "\<exists>self. AtlantisService b u p t v tmo = Inr self
     \<and> auth self = None \<and> headers self = []
     \<and> (\<forall>tr method endpoint params json_data w. \<exists>rq.
          sent (snd (make_request self tr method endpoint params json_data (w :: 's net)))
            = sent w @ [rq]
          \<and> req_auth rq = None \<and> req_headers rq = [])"
proof -
  from assms obtain self where s: "AtlantisService b u p t v tmo = Inr self"
    and a: "auth self = None" and h: "headers self = []"
    by (auto simp: AtlantisService_def)
  have "\<forall>tr method endpoint params json_data w. \<exists>rq.
          sent (snd (make_request self tr method endpoint params json_data (w :: 's net)))
            = sent w @ [rq]
          \<and> req_auth rq = None \<and> req_headers rq = []"
    by (simp add: make_request_sent a h)
  with s a h show ?thesis by blast
qed

text \<open>A username alone, and a request sent by the client that results.\<close>

theorem partial_basic_credentials_unauthenticated_witness:
  "''https://x.com'' \<noteq> [] \<and> \<not> truthy None \<and> truthy (Some ''admin'')
   \<and> (\<exists>self. AtlantisService ''https://x.com'' (Some ''admin'') None None True 30 = Inr self
        \<and> auth self = None \<and> headers self = []
        \<and> map req_auth (sent (snd (make_request self
             (\<lambda>rq s. (Inr \<lparr> status_code = 200, resp_text = ''{}'', resp_json = Inr (PDict []) \<rparr>, s))
             ''GET'' ''/api/locks'' None None \<lparr> server = (), sent = [] \<rparr>))) = [None]
        \<and> map req_headers (sent (snd (make_request self
             (\<lambda>rq s. (Inr \<lparr> status_code = 200, resp_text = ''{}'', resp_json = Inr (PDict []) \<rparr>, s))
             ''GET'' ''/api/locks'' None None \<lparr> server = (), sent = [] \<rparr>))) = [[]])"
proof -
  have h1: "''https://x.com'' \<noteq> []" by simp
  have h2: "\<not> truthy None" by (simp add: truthy_def)
  have h3: "(truthy (Some ''admin'') \<and> \<not> truthy None) \<or> (\<not> truthy (Some ''admin'') \<and> truthy None)"
    by (simp add: truthy_def)
  from partial_basic_credentials_unauthenticated [OF h1 h2 h3, of True 30, where ?'s = unit]
  obtain self where a: "AtlantisService ''https://x.com'' (Some ''admin'') None None True 30 = Inr self"
    and b: "auth self = None" and c: "headers self = []"
    and d: "\<And>tr method endpoint params json_data w. \<exists>rq.
          sent (snd (make_request self tr method endpoint params json_data (w :: unit net)))
            = sent w @ [rq]
          \<and> req_auth rq = None \<and> req_headers rq = []"
    by blast
  from d [of "\<lambda>rq s. (Inr \<lparr> status_code = 200, resp_text = ''{}'', resp_json = Inr (PDict []) \<rparr>, s)"
      "''GET''" "''/api/locks''" None None "\<lparr> server = (), sent = [] \<rparr>"]
  obtain rq where e: "sent (snd (make_request self
             (\<lambda>rq s. (Inr \<lparr> status_code = 200, resp_text = ''{}'', resp_json = Inr (PDict []) \<rparr>, s))
             ''GET'' ''/api/locks'' None None \<lparr> server = (), sent = [] \<rparr>)) = [rq]"
    and f: "req_auth rq = None" and g: "req_headers rq = []"
    by auto
  from a b c e f g show ?thesis by (simp add: truthy_def)
qed

section \<open>Properties of the GitHub client\<close>

subsection \<open>Helper lemmas\<close>

lemmas sdk_calls = get_repository_def get_repo_def get_git_ref_def get_git_commit_def
  get_git_tree_def create_git_blob_def create_git_tree_def create_git_commit_def ref_edit_def
  create_git_ref_def get_pull_def create_review_comment_def create_issue_comment_def

lemma files_keys: "map (\<lambda>(file_path, content). PStr file_path) files = map PStr (map fst files)"
  by (simp add: case_prod_unfold comp_def)

lemma keep_elements_filter:
  "keep_elements keep es acc =
     acc @ map (\<lambda>e. InputGitTreeElement (el_path e) (el_mode e) (el_type e) (el_sha e))
             (filter keep es)"
  by (induction es arbitrary: acc) simp_all

subsection \<open>Pushing one file\<close>

text \<open>
  What \<open>push_to_pull_request\<close> does when the SDK answers each call with a value: the
  calls it makes, from which state of the remote side, the tree it submits, the state it
  leaves and the dictionary it returns.
\<close>

lemma push_to_pull_request_run:
  assumes "sdk_get_repo gh (owner @ ''/'' @ repo) (remote w) = (Inr repository, s1)"
    and "sdk_get_git_ref gh repository (''heads/'' @ branch) s1 = (Inr ref, s2)"
    and "sdk_get_git_commit gh repository (object_sha ref) s2 = (Inr commit, s3)"
    and "sdk_get_git_tree gh repository (commit_tree_sha commit) True s3 = (Inr tree, s4)"
    and "sdk_create_git_blob gh repository content ''utf-8'' s4 = (Inr blob, s5)"
    and "sdk_create_git_tree gh repository
          (map (\<lambda>e. InputGitTreeElement (el_path e) (el_mode e) (el_type e) (el_sha e))
             (filter (\<lambda>e. el_path e \<noteq> file_path) (tree_entries tree))
           @ [InputGitTreeElement file_path ''100644'' ''blob'' (blob_sha blob)])
          tree s5 = (Inr new_tree, s6)"
    and "sdk_create_git_commit gh repository message new_tree [commit] s6
          = (Inr new_commit, s7)"
    and "sdk_ref_edit gh ref (commit_sha new_commit) s7 = (Inr (), s8)"
  shows "push_to_pull_request gh owner repo branch file_path content message pr_number w =
    (Inr [(''commit_sha'', PStr (commit_sha new_commit)),
          (''branch'', PStr branch),
          (''file_path'', PStr file_path),
          (''message'', PStr message)],
     \<lparr> remote = s8,
       trace = trace w @
         [GetRepo (owner @ ''/'' @ repo) (Inr repository),
          GetGitRef repository (''heads/'' @ branch) (Inr ref),
          GetGitCommit repository (object_sha ref) (Inr commit),
          GetGitTree repository (commit_tree_sha commit) True (Inr tree),
          CreateGitBlob repository content ''utf-8'' (Inr blob),
          CreateGitTree repository
            (map (\<lambda>e. InputGitTreeElement (el_path e) (el_mode e) (el_type e) (el_sha e))
             (filter (\<lambda>e. el_path e \<noteq> file_path) (tree_entries tree))
             @ [InputGitTreeElement file_path ''100644'' ''blob'' (blob_sha blob)])
            tree (Inr new_tree),
          CreateGitCommit repository message new_tree [commit] (Inr new_commit),
          RefEdit ref (commit_sha new_commit) (Inr ())] \<rparr>)"
  using assms
  by (simp add: push_to_pull_request_def and_then_def sdk_calls call_def returns_def
      Let_def keep_elements_filter)

text \<open>
  Neither kind of entry carries a sha: the old sha of a kept entry and the sha of the
  new blob are both handed over as content.
\<close>

lemma submitted_entries_have_no_sha:
  "in_sha (InputGitTreeElement path mode type_arg fourth) = None
   \<and> in_content (InputGitTreeElement path mode type_arg fourth) = Some fourth"
  by (simp add: InputGitTreeElement_def)

text \<open>
  Claim C2. The claim has the new tree keep every other entry unchanged and add one entry
  that points at the fresh blob. The source builds each entry as
  \<^verbatim>\<open>InputGitTreeElement(path, mode, type, <sha>)\<close>, and the fourth positional parameter
  of that constructor is the content. In the run of \<^verbatim>\<open>test_push_to_pull_request\<close>
  (a tree with \<^verbatim>\<open>other_file.py\<close> at \<^verbatim>\<open>old_sha\<close>, the file \<^verbatim>\<open>src/new_file.py\<close> pushed)
  the tree submitted holds \<^verbatim>\<open>other_file.py\<close> with content \<^verbatim>\<open>old_sha\<close> and no sha, and
  \<^verbatim>\<open>src/new_file.py\<close> with the sha of the new blob as its content and no sha: the kept
  entry has lost its sha, and the new entry does not point at the blob. The rest is as
  the claim says: the commit has the old commit as its only parent, the reference is moved
  once, to the sha of the new commit, and the dictionary holds that sha, the branch, the
  path and the message.
\<close>

theorem push_to_pull_request_sha_as_content:
  "push_to_pull_request
     (mock_sdk (\<lambda>name. Inr \<lparr> ref_name = name, object_sha = ''ref_sha'' \<rparr>)
        \<lparr> tree_sha = ''tree_sha'',
               tree_entries = [\<lparr> el_path = ''other_file.py'', el_mode = ''100644'',
                                 el_type = ''blob'', el_sha = ''old_sha'' \<rparr>] \<rparr>)
     ''octocat'' ''Hello-World'' ''feature-branch'' ''src/new_file.py'' ''# New file''
     ''Add new file'' (Some 1) \<lparr> remote = (), trace = [] \<rparr>
   = (Inr [(''commit_sha'', PStr ''new_commit_sha''),
           (''branch'', PStr ''feature-branch''),
           (''file_path'', PStr ''src/new_file.py''),
           (''message'', PStr ''Add new file'')],
      \<lparr> remote = (),
        trace =
          [GetRepo ''octocat/Hello-World'' (Inr (Repository ''octocat/Hello-World'')),
           GetGitRef (Repository ''octocat/Hello-World'') ''heads/feature-branch''
             (Inr \<lparr> ref_name = ''heads/feature-branch'', object_sha = ''ref_sha'' \<rparr>),
           GetGitCommit (Repository ''octocat/Hello-World'') ''ref_sha''
             (Inr \<lparr> commit_sha = ''ref_sha'', commit_tree_sha = ''tree_sha'' \<rparr>),
           GetGitTree (Repository ''octocat/Hello-World'') ''tree_sha'' True
             (Inr \<lparr> tree_sha = ''tree_sha'',
               tree_entries = [\<lparr> el_path = ''other_file.py'', el_mode = ''100644'',
                                 el_type = ''blob'', el_sha = ''old_sha'' \<rparr>] \<rparr>),
           CreateGitBlob (Repository ''octocat/Hello-World'') ''# New file'' ''utf-8''
             (Inr \<lparr> blob_sha = ''blob:# New file'' \<rparr>),
           CreateGitTree (Repository ''octocat/Hello-World'')
             [\<lparr> in_path = ''other_file.py'', in_mode = ''100644'', in_type = ''blob'',
                in_content = Some ''old_sha'', in_sha = None \<rparr>,
              \<lparr> in_path = ''src/new_file.py'', in_mode = ''100644'', in_type = ''blob'',
                in_content = Some ''blob:# New file'', in_sha = None \<rparr>]
             \<lparr> tree_sha = ''tree_sha'',
               tree_entries = [\<lparr> el_path = ''other_file.py'', el_mode = ''100644'',
                                 el_type = ''blob'', el_sha = ''old_sha'' \<rparr>] \<rparr>
             (Inr \<lparr> tree_sha = ''new_tree_sha'', tree_entries = [] \<rparr>),
           CreateGitCommit (Repository ''octocat/Hello-World'') ''Add new file''
             \<lparr> tree_sha = ''new_tree_sha'', tree_entries = [] \<rparr>
             [\<lparr> commit_sha = ''ref_sha'', commit_tree_sha = ''tree_sha'' \<rparr>]
             (Inr \<lparr> commit_sha = ''new_commit_sha'', commit_tree_sha = ''new_tree_sha'' \<rparr>),
           RefEdit \<lparr> ref_name = ''heads/feature-branch'', object_sha = ''ref_sha'' \<rparr>
             ''new_commit_sha'' (Inr ())] \<rparr>)"
  by (simp add: push_to_pull_request_def and_then_def sdk_calls call_def returns_def
      mock_sdk_def InputGitTreeElement_def)

subsection \<open>Pushing several files\<close>

text \<open>
  The loop over the files, when the SDK answers the creation of blob \<open>i\<close> from the
  state \<open>ss ! i\<close> with the blob \<open>blobs ! i\<close> and the state \<open>ss ! Suc i\<close>.
\<close>

lemma add_files_run:
  assumes "length blobs = length files" and "length ss = Suc (length files)"
    and "\<forall>i < length files.
          sdk_create_git_blob gh repository (snd (files ! i)) ''utf-8'' (ss ! i)
            = (Inr (blobs ! i), ss ! Suc i)"
  shows "add_files gh repository files acc \<lparr> remote = ss ! 0, trace = t \<rparr> =
    (Inr (acc @ map2 (\<lambda>(p, c) b. InputGitTreeElement p ''100644'' ''blob'' (blob_sha b)) files blobs),
     \<lparr> remote = ss ! length files,
       trace = t @ map2 (\<lambda>(p, c) b. CreateGitBlob repository c ''utf-8'' (Inr b)) files blobs \<rparr>)"
  using assms
proof (induction files arbitrary: blobs ss acc t)
  case Nil
  then show ?case by simp
next
  case (Cons f files)
  obtain p c where f: "f = (p, c)" by (cases f)
  from Cons.prems(1) obtain b bs where blobs: "blobs = b # bs" and lb: "length bs = length files"
    by (cases blobs) auto
  from Cons.prems(2) obtain s0 ss' where ss: "ss = s0 # ss'" and ls: "length ss' = Suc (length files)"
    by (cases ss) auto
  from Cons.prems(3) have first:
    "sdk_create_git_blob gh repository c ''utf-8'' s0 = (Inr b, ss' ! 0)"
    by (auto simp: f blobs ss dest: spec [of _ 0])
  have rest: "\<forall>i < length files.
      sdk_create_git_blob gh repository (snd (files ! i)) ''utf-8'' (ss' ! i)
        = (Inr (bs ! i), ss' ! Suc i)"
  proof (intro allI impI)
    fix i assume "i < length files"
    then have "Suc i < length (f # files)" by simp
    with Cons.prems(3) have
      "sdk_create_git_blob gh repository (snd ((f # files) ! Suc i)) ''utf-8'' (ss ! Suc i)
        = (Inr (blobs ! Suc i), ss ! Suc (Suc i))"
      by blast
    then show "sdk_create_git_blob gh repository (snd (files ! i)) ''utf-8'' (ss' ! i)
        = (Inr (bs ! i), ss' ! Suc i)"
      by (simp add: blobs ss)
  qed
  have step: "create_git_blob gh repository c ''utf-8'' \<lparr> remote = s0, trace = t \<rparr>
      = (Inr b, \<lparr> remote = ss' ! 0,
                  trace = t @ [CreateGitBlob repository c ''utf-8'' (Inr b)] \<rparr>)"
    using first by (simp add: create_git_blob_def call_def)
  show ?case
    using Cons.IH [OF lb ls rest,
        of "acc @ [InputGitTreeElement p ''100644'' ''blob'' (blob_sha b)]"
           "t @ [CreateGitBlob repository c ''utf-8'' (Inr b)]"]
    by (simp add: f blobs ss step)
qed

text \<open>
  What \<open>push_files_to_branch\<close> does when the SDK answers each call with a value; \<open>ss\<close>
  are the states of the remote side before, between and after the creations of the blobs.
\<close>

lemma push_files_to_branch_run:
  assumes "sdk_get_repo gh (owner @ ''/'' @ repo) (remote w) = (Inr repository, s1)"
    and "sdk_get_git_ref gh repository (''heads/'' @ branch) s1 = (Inr branch_ref, s2)"
    and "sdk_get_git_commit gh repository (object_sha branch_ref) s2 = (Inr commit, s3)"
    and "sdk_get_git_tree gh repository (commit_tree_sha commit) True s3 = (Inr tree, ss ! 0)"
    and "length blobs = length files" and "length ss = Suc (length files)"
    and "\<forall>i < length files.
          sdk_create_git_blob gh repository (snd (files ! i)) ''utf-8'' (ss ! i)
            = (Inr (blobs ! i), ss ! Suc i)"
    and "sdk_create_git_tree gh repository
          (map (\<lambda>e. InputGitTreeElement (el_path e) (el_mode e) (el_type e) (el_sha e))
             (filter (\<lambda>e. el_path e \<notin> fst ` set files) (tree_entries tree))
           @ map2 (\<lambda>(p, c) b. InputGitTreeElement p ''100644'' ''blob'' (blob_sha b)) files blobs)
          tree (ss ! length files) = (Inr new_tree, s6)"
    and "sdk_create_git_commit gh repository message new_tree [commit] s6
          = (Inr new_commit, s7)"
    and "sdk_ref_edit gh branch_ref (commit_sha new_commit) s7 = (Inr (), s8)"
  shows "push_files_to_branch gh owner repo branch files message w =
    (Inr [(''commit_sha'', PStr (commit_sha new_commit)),
          (''branch'', PStr branch),
          (''files'', PList (map PStr (map fst files))),
          (''message'', PStr message)],
     \<lparr> remote = s8,
       trace = trace w @
         [GetRepo (owner @ ''/'' @ repo) (Inr repository),
          GetGitRef repository (''heads/'' @ branch) (Inr branch_ref),
          GetGitCommit repository (object_sha branch_ref) (Inr commit),
          GetGitTree repository (commit_tree_sha commit) True (Inr tree)]
         @ map2 (\<lambda>(p, c) b. CreateGitBlob repository c ''utf-8'' (Inr b)) files blobs
         @ [CreateGitTree repository
              (map (\<lambda>e. InputGitTreeElement (el_path e) (el_mode e) (el_type e) (el_sha e))
             (filter (\<lambda>e. el_path e \<notin> fst ` set files) (tree_entries tree))
               @ map2 (\<lambda>(p, c) b. InputGitTreeElement p ''100644'' ''blob'' (blob_sha b)) files blobs)
              tree (Inr new_tree),
            CreateGitCommit repository message new_tree [commit] (Inr new_commit),
            RefEdit branch_ref (commit_sha new_commit) (Inr ())] \<rparr>)"
proof -
  let ?t4 = "trace w @
         [GetRepo (owner @ ''/'' @ repo) (Inr repository),
          GetGitRef repository (''heads/'' @ branch) (Inr branch_ref),
          GetGitCommit repository (object_sha branch_ref) (Inr commit),
          GetGitTree repository (commit_tree_sha commit) True (Inr tree)]"
  let ?kept = "map (\<lambda>e. InputGitTreeElement (el_path e) (el_mode e) (el_type e) (el_sha e))
             (filter (\<lambda>e. el_path e \<notin> fst ` set files) (tree_entries tree))"
  have loop: "add_files gh repository files ?kept \<lparr> remote = ss ! 0, trace = ?t4 \<rparr> =
    (Inr (?kept @ map2 (\<lambda>(p, c) b. InputGitTreeElement p ''100644'' ''blob'' (blob_sha b)) files blobs),
     \<lparr> remote = ss ! length files,
       trace = ?t4 @ map2 (\<lambda>(p, c) b. CreateGitBlob repository c ''utf-8'' (Inr b)) files blobs \<rparr>)"
    by (rule add_files_run [OF assms(5) assms(6) assms(7)])
  from assms(1-4) assms(8-10) loop show ?thesis
    by (simp add: push_files_to_branch_def and_then_def sdk_calls call_def returns_def
        Let_def keep_elements_filter files_keys)
qed

text \<open>
  Claim C1. The claim has the tree submitted hold every entry that is not updated with
  its own sha, and one entry per file that carries the sha of a fresh blob. As in
  \<open>push_to_pull_request\<close>, the source hands each sha to the fourth positional parameter
  of \<^verbatim>\<open>InputGitTreeElement\<close>, which is the content. In the run of
  \<^verbatim>\<open>test_push_files_to_branch\<close> (a tree with \<^verbatim>\<open>other_file.py\<close> at \<^verbatim>\<open>old_sha\<close>, two
  files pushed) the tree submitted holds \<^verbatim>\<open>other_file.py\<close> with content \<^verbatim>\<open>old_sha\<close> and
  no sha, and each new path with the sha of its blob as content and no sha. The list
  \<^verbatim>\<open>files\<close> of the dictionary returned is the list of the keys, as the claim says.
\<close>

theorem push_files_to_branch_sha_as_content:
  "push_files_to_branch
     (mock_sdk (\<lambda>name. Inr \<lparr> ref_name = name, object_sha = ''ref_sha'' \<rparr>)
        \<lparr> tree_sha = ''tree_sha'',
               tree_entries = [\<lparr> el_path = ''other_file.py'', el_mode = ''100644'',
                                 el_type = ''blob'', el_sha = ''old_sha'' \<rparr>] \<rparr>)
     ''octocat'' ''Hello-World'' ''feature-branch''
     [(''file1.py'', ''content1''), (''file2.py'', ''content2'')] ''Add files''
     \<lparr> remote = (), trace = [] \<rparr>
   = (Inr [(''commit_sha'', PStr ''new_commit_sha''),
           (''branch'', PStr ''feature-branch''),
           (''files'', PList [PStr ''file1.py'', PStr ''file2.py'']),
           (''message'', PStr ''Add files'')],
      \<lparr> remote = (),
        trace =
          [GetRepo ''octocat/Hello-World'' (Inr (Repository ''octocat/Hello-World'')),
           GetGitRef (Repository ''octocat/Hello-World'') ''heads/feature-branch''
             (Inr \<lparr> ref_name = ''heads/feature-branch'', object_sha = ''ref_sha'' \<rparr>),
           GetGitCommit (Repository ''octocat/Hello-World'') ''ref_sha''
             (Inr \<lparr> commit_sha = ''ref_sha'', commit_tree_sha = ''tree_sha'' \<rparr>),
           GetGitTree (Repository ''octocat/Hello-World'') ''tree_sha'' True
             (Inr \<lparr> tree_sha = ''tree_sha'',
               tree_entries = [\<lparr> el_path = ''other_file.py'', el_mode = ''100644'',
                                 el_type = ''blob'', el_sha = ''old_sha'' \<rparr>] \<rparr>),
           CreateGitBlob (Repository ''octocat/Hello-World'') ''content1'' ''utf-8''
             (Inr \<lparr> blob_sha = ''blob:content1'' \<rparr>),
           CreateGitBlob (Repository ''octocat/Hello-World'') ''content2'' ''utf-8''
             (Inr \<lparr> blob_sha = ''blob:content2'' \<rparr>),
           CreateGitTree (Repository ''octocat/Hello-World'')
             [\<lparr> in_path = ''other_file.py'', in_mode = ''100644'', in_type = ''blob'',
                in_content = Some ''old_sha'', in_sha = None \<rparr>,
              \<lparr> in_path = ''file1.py'', in_mode = ''100644'', in_type = ''blob'',
                in_content = Some ''blob:content1'', in_sha = None \<rparr>,
              \<lparr> in_path = ''file2.py'', in_mode = ''100644'', in_type = ''blob'',
                in_content = Some ''blob:content2'', in_sha = None \<rparr>]
             \<lparr> tree_sha = ''tree_sha'',
               tree_entries = [\<lparr> el_path = ''other_file.py'', el_mode = ''100644'',
                                 el_type = ''blob'', el_sha = ''old_sha'' \<rparr>] \<rparr>
             (Inr \<lparr> tree_sha = ''new_tree_sha'', tree_entries = [] \<rparr>),
           CreateGitCommit (Repository ''octocat/Hello-World'') ''Add files''
             \<lparr> tree_sha = ''new_tree_sha'', tree_entries = [] \<rparr>
             [\<lparr> commit_sha = ''ref_sha'', commit_tree_sha = ''tree_sha'' \<rparr>]
             (Inr \<lparr> commit_sha = ''new_commit_sha'', commit_tree_sha = ''new_tree_sha'' \<rparr>),
           RefEdit \<lparr> ref_name = ''heads/feature-branch'', object_sha = ''ref_sha'' \<rparr>
             ''new_commit_sha'' (Inr ())] \<rparr>)"
  by (simp add: push_files_to_branch_def and_then_def sdk_calls call_def returns_def
      mock_sdk_def InputGitTreeElement_def)

subsection \<open>Creating a branch\<close>

lemma mentions_already_exists: "sublist ''already exists'' (p @ '' already exists'')"
  unfolding sublist_def by (rule exI [of _ "p @ '' ''"], rule exI [of _ "[]"]) simp

lemma mentions_not_found: "sublist ''not found'' (p @ '' not found: '' @ s)"
  unfolding sublist_def by (rule exI [of _ "p @ '' ''"], rule exI [of _ "'': '' @ s"]) simp


text \<open>
  Claim C3. Once the repository is resolved, \<open>create_branch\<close> looks the new branch up
  first. If the reference is found, the call fails with a \<^verbatim>\<open>ValueError\<close> whose message
  contains \<^verbatim>\<open>already exists\<close>, and the base branch is not looked up. If the lookup
  raises the 404 exception, the base branch is looked up next: if that raises, the call
  fails with a \<^verbatim>\<open>ValueError\<close> whose message contains \<^verbatim>\<open>not found\<close> and differs from
  the first message; if it returns a reference and the creation of the new reference
  succeeds, \<^verbatim>\<open>refs/heads/<branch>\<close> has been created at the sha of the base reference
  and the dictionary returned holds the branch, the base branch and that sha.
\<close>

theorem create_branch_outcomes:
  assumes "sdk_get_repo gh (owner @ ''/'' @ repo) (remote w) = (Inr repository, s1)"
  shows
   "(sdk_get_git_ref gh repository (''heads/'' @ branch) s1 = (Inr found, s2) \<longrightarrow>
       create_branch gh owner repo branch base_branch w =
         (Inl (ValueError (''Branch '' @ [CHR 0x27] @ branch @ [CHR 0x27] @ '' already exists'')),
          \<lparr> remote = s2,
            trace = trace w @
              [GetRepo (owner @ ''/'' @ repo) (Inr repository),
               GetGitRef repository (''heads/'' @ branch) (Inr found)] \<rparr>)
       \<and> sublist ''already exists''
            (''Branch '' @ [CHR 0x27] @ branch @ [CHR 0x27] @ '' already exists''))
  \<and> (sdk_get_git_ref gh repository (''heads/'' @ branch) s1
        = (Inl (GithubException 404 m), t2) \<longrightarrow>
     sdk_get_git_ref gh repository (''heads/'' @ base_branch) t2 = (Inl e, t3) \<longrightarrow>
       create_branch gh owner repo branch base_branch w =
         (Inl (ValueError
            (''Base branch '' @ [CHR 0x27] @ base_branch @ [CHR 0x27] @ '' not found: ''
               @ str_exn e)),
          \<lparr> remote = t3,
            trace = trace w @
              [GetRepo (owner @ ''/'' @ repo) (Inr repository),
               GetGitRef repository (''heads/'' @ branch) (Inl (GithubException 404 m)),
               GetGitRef repository (''heads/'' @ base_branch) (Inl e)] \<rparr>)
       \<and> sublist ''not found''
            (''Base branch '' @ [CHR 0x27] @ base_branch @ [CHR 0x27] @ '' not found: ''
               @ str_exn e)
       \<and> ''Base branch '' @ [CHR 0x27] @ base_branch @ [CHR 0x27] @ '' not found: ''
               @ str_exn e
          \<noteq> ''Branch '' @ [CHR 0x27] @ branch @ [CHR 0x27] @ '' already exists'')
  \<and> (sdk_get_git_ref gh repository (''heads/'' @ branch) s1
        = (Inl (GithubException 404 m), t2) \<longrightarrow>
     sdk_get_git_ref gh repository (''heads/'' @ base_branch) t2 = (Inr base_ref, u3) \<longrightarrow>
     sdk_create_git_ref gh repository (''refs/heads/'' @ branch) (object_sha base_ref) u3
        = (Inr new_ref, u4) \<longrightarrow>
       create_branch gh owner repo branch base_branch w =
         (Inr [(''branch'', PStr branch),
               (''base_branch'', PStr base_branch),
               (''commit_sha'', PStr (object_sha base_ref))],
          \<lparr> remote = u4,
            trace = trace w @
              [GetRepo (owner @ ''/'' @ repo) (Inr repository),
               GetGitRef repository (''heads/'' @ branch) (Inl (GithubException 404 m)),
               GetGitRef repository (''heads/'' @ base_branch) (Inr base_ref),
               CreateGitRef repository (''refs/heads/'' @ branch) (object_sha base_ref)
                 (Inr new_ref)] \<rparr>))"
proof (intro conjI impI)
  assume "sdk_get_git_ref gh repository (''heads/'' @ branch) s1 = (Inr found, s2)"
  with assms show "create_branch gh owner repo branch base_branch w =
         (Inl (ValueError (''Branch '' @ [CHR 0x27] @ branch @ [CHR 0x27] @ '' already exists'')),
          \<lparr> remote = s2,
            trace = trace w @
              [GetRepo (owner @ ''/'' @ repo) (Inr repository),
               GetGitRef repository (''heads/'' @ branch) (Inr found)] \<rparr>)"
    by (simp add: create_branch_def and_then_def sdk_calls call_def)
next
  have "''Branch '' @ [CHR 0x27] @ branch @ [CHR 0x27] @ '' already exists''
      = (''Branch '' @ [CHR 0x27] @ branch @ [CHR 0x27]) @ '' already exists''"
    by simp
  then show "sublist ''already exists''
            (''Branch '' @ [CHR 0x27] @ branch @ [CHR 0x27] @ '' already exists'')"
    by (simp only: mentions_already_exists)
next
  assume "sdk_get_git_ref gh repository (''heads/'' @ branch) s1
        = (Inl (GithubException 404 m), t2)"
    and "sdk_get_git_ref gh repository (''heads/'' @ base_branch) t2 = (Inl e, t3)"
  with assms show "create_branch gh owner repo branch base_branch w =
         (Inl (ValueError
            (''Base branch '' @ [CHR 0x27] @ base_branch @ [CHR 0x27] @ '' not found: ''
               @ str_exn e)),
          \<lparr> remote = t3,
            trace = trace w @
              [GetRepo (owner @ ''/'' @ repo) (Inr repository),
               GetGitRef repository (''heads/'' @ branch) (Inl (GithubException 404 m)),
               GetGitRef repository (''heads/'' @ base_branch) (Inl e)] \<rparr>)"
    by (simp add: create_branch_def and_then_def sdk_calls call_def)
next
  have "''Base branch '' @ [CHR 0x27] @ base_branch @ [CHR 0x27] @ '' not found: '' @ str_exn e
      = (''Base branch '' @ [CHR 0x27] @ base_branch @ [CHR 0x27]) @ '' not found: '' @ str_exn e"
    by simp
  then show "sublist ''not found''
            (''Base branch '' @ [CHR 0x27] @ base_branch @ [CHR 0x27] @ '' not found: ''
               @ str_exn e)"
    by (simp only: mentions_not_found)
next
  show "''Base branch '' @ [CHR 0x27] @ base_branch @ [CHR 0x27] @ '' not found: ''
               @ str_exn e
          \<noteq> ''Branch '' @ [CHR 0x27] @ branch @ [CHR 0x27] @ '' already exists''"
    by simp
next
  assume "sdk_get_git_ref gh repository (''heads/'' @ branch) s1
        = (Inl (GithubException 404 m), t2)"
    and "sdk_get_git_ref gh repository (''heads/'' @ base_branch) t2 = (Inr base_ref, u3)"
    and "sdk_create_git_ref gh repository (''refs/heads/'' @ branch) (object_sha base_ref) u3
        = (Inr new_ref, u4)"
  with assms show "create_branch gh owner repo branch base_branch w =
         (Inr [(''branch'', PStr branch),
               (''base_branch'', PStr base_branch),
               (''commit_sha'', PStr (object_sha base_ref))],
          \<lparr> remote = u4,
            trace = trace w @
              [GetRepo (owner @ ''/'' @ repo) (Inr repository),
               GetGitRef repository (''heads/'' @ branch) (Inl (GithubException 404 m)),
               GetGitRef repository (''heads/'' @ base_branch) (Inr base_ref),
               CreateGitRef repository (''refs/heads/'' @ branch) (object_sha base_ref)
                 (Inr new_ref)] \<rparr>)"
    by (simp add: create_branch_def and_then_def sdk_calls call_def returns_def)
qed


subsection \<open>What a failed reference lookup means\<close>

text \<open>
  Claim C4, as stated, has every SDK exception whose status is not 404 raised again
  unchanged by the existence check of \<open>push_files_to_branch\<close>. A lookup that fails with
  status 500 is turned into the \<^verbatim>\<open>ValueError\<close> of a branch that is not found: the source
  catches \<^verbatim>\<open>Exception\<close> there.
\<close>

theorem push_files_server_error_counterexample:
  "fst (push_files_to_branch
      (mock_sdk (\<lambda>name. Inl (GithubException 500 ''500 Server Error''))
         \<lparr> tree_sha = ''tree_sha'', tree_entries = [] \<rparr>)
      ''octocat'' ''Hello-World'' ''feature'' [(''file.py'', ''content'')] ''Add file''
      \<lparr> remote = (), trace = [] \<rparr>)
   = Inl (ValueError
       (''Branch '' @ [CHR 0x27] @ ''feature'' @ [CHR 0x27] @ '' not found: 500 Server Error''))"
  by (simp add: push_files_to_branch_def and_then_def sdk_calls call_def mock_sdk_def)

text \<open>
  Claim C4, amended. Once the repository is resolved: the check of \<open>create_branch\<close> for
  the new branch raises a \<^verbatim>\<open>GithubException\<close> whose status is not 404 again, unchanged;
  its lookup of the base branch, reached after a 404, turns every exception into a
  \<^verbatim>\<open>ValueError\<close>; the lookup of \<open>push_files_to_branch\<close> turns every exception, whatever
  its status, into a \<^verbatim>\<open>ValueError\<close> whose message contains \<^verbatim>\<open>not found\<close>; and the
  lookup of \<open>push_to_pull_request\<close>, which is no existence check, lets every exception
  through unchanged, the 404 one too.
\<close>

theorem not_found_handling:
  assumes "sdk_get_repo gh (owner @ ''/'' @ repo) (remote w) = (Inr repository, s1)"
  shows
   "(sdk_get_git_ref gh repository (''heads/'' @ branch) s1
        = (Inl (GithubException st m), s2) \<longrightarrow> st \<noteq> 404 \<longrightarrow>
       fst (create_branch gh owner repo branch base_branch w) = Inl (GithubException st m))
  \<and> (sdk_get_git_ref gh repository (''heads/'' @ branch) s1
        = (Inl (GithubException 404 m), t2) \<longrightarrow>
     sdk_get_git_ref gh repository (''heads/'' @ base_branch) t2 = (Inl e, t3) \<longrightarrow>
       fst (create_branch gh owner repo branch base_branch w) =
         Inl (ValueError
            (''Base branch '' @ [CHR 0x27] @ base_branch @ [CHR 0x27] @ '' not found: ''
               @ str_exn e)))
  \<and> (sdk_get_git_ref gh repository (''heads/'' @ branch) s1 = (Inl e, s2) \<longrightarrow>
       fst (push_files_to_branch gh owner repo branch files message w) =
         Inl (ValueError
            (''Branch '' @ [CHR 0x27] @ branch @ [CHR 0x27] @ '' not found: '' @ str_exn e))
       \<and> sublist ''not found''
            (''Branch '' @ [CHR 0x27] @ branch @ [CHR 0x27] @ '' not found: '' @ str_exn e))
  \<and> (sdk_get_git_ref gh repository (''heads/'' @ branch) s1 = (Inl e, s2) \<longrightarrow>
       fst (push_to_pull_request gh owner repo branch file_path content message pr_number w)
         = Inl e)"
proof (intro conjI impI)
  assume "sdk_get_git_ref gh repository (''heads/'' @ branch) s1
        = (Inl (GithubException st m), s2)" and "st \<noteq> 404"
  with assms show
    "fst (create_branch gh owner repo branch base_branch w) = Inl (GithubException st m)"
    by (simp add: create_branch_def and_then_def sdk_calls call_def)
next
  assume "sdk_get_git_ref gh repository (''heads/'' @ branch) s1
        = (Inl (GithubException 404 m), t2)"
    and "sdk_get_git_ref gh repository (''heads/'' @ base_branch) t2 = (Inl e, t3)"
  with assms show "fst (create_branch gh owner repo branch base_branch w) =
         Inl (ValueError
            (''Base branch '' @ [CHR 0x27] @ base_branch @ [CHR 0x27] @ '' not found: ''
               @ str_exn e))"
    by (simp add: create_branch_def and_then_def sdk_calls call_def)
next
  assume "sdk_get_git_ref gh repository (''heads/'' @ branch) s1 = (Inl e, s2)"
  with assms show "fst (push_files_to_branch gh owner repo branch files message w) =
         Inl (ValueError
            (''Branch '' @ [CHR 0x27] @ branch @ [CHR 0x27] @ '' not found: '' @ str_exn e))"
    by (simp add: push_files_to_branch_def and_then_def sdk_calls call_def)
next
  have "''Branch '' @ [CHR 0x27] @ branch @ [CHR 0x27] @ '' not found: '' @ str_exn e
      = (''Branch '' @ [CHR 0x27] @ branch @ [CHR 0x27]) @ '' not found: '' @ str_exn e"
    by simp
  then show "sublist ''not found''
            (''Branch '' @ [CHR 0x27] @ branch @ [CHR 0x27] @ '' not found: '' @ str_exn e)"
    by (simp only: mentions_not_found)
next
  assume "sdk_get_git_ref gh repository (''heads/'' @ branch) s1 = (Inl e, s2)"
  with assms show
    "fst (push_to_pull_request gh owner repo branch file_path content message pr_number w)
         = Inl e"
    by (simp add: push_to_pull_request_def and_then_def sdk_calls call_def)
qed

subsection \<open>Comments on a pull request\<close>

text \<open>
  What \<open>create_pull_request_comment\<close> does once the repository and the pull request are
  resolved: with a commit id, a path and a line number the call of
  \<^verbatim>\<open>create_review_comment\<close> raises \<^verbatim>\<open>TypeError\<close>, and nothing more is asked of the
  remote side; when one of the three is left out, \<^verbatim>\<open>create_issue_comment\<close> is called with
  the body and its outcome is the outcome of the operation.
\<close>

lemma comment_kind:
  assumes "sdk_get_repo gh (owner @ ''/'' @ repo) (remote w) = (Inr repository, s1)"
    and "sdk_get_pull gh repository pr_number s1 = (Inr pr, s2)"
  shows
   "(truthy commit_id \<and> truthy path \<and> line \<noteq> None \<longrightarrow>
       create_pull_request_comment gh owner repo pr_number body commit_id path line side w =
         (Inl (TypeError
            (''PullRequest.create_review_comment() got an unexpected keyword argument ''
               @ [CHR 0x27] @ ''commit_id'' @ [CHR 0x27])),
          \<lparr> remote = s2,
            trace = trace w @
              [GetRepo (owner @ ''/'' @ repo) (Inr repository),
               GetPull repository pr_number (Inr pr)] \<rparr>))
  \<and> (\<not> truthy commit_id \<or> \<not> truthy path \<or> line = None \<longrightarrow>
       sdk_create_issue_comment gh pr body s2 = (r, s3) \<longrightarrow>
       create_pull_request_comment gh owner repo pr_number body commit_id path line side w =
         (r, \<lparr> remote = s3,
               trace = trace w @
                 [GetRepo (owner @ ''/'' @ repo) (Inr repository),
                  GetPull repository pr_number (Inr pr),
                  CreateIssueComment pr body r] \<rparr>))"
  using assms
  by (auto simp: create_pull_request_comment_def and_then_def sdk_calls call_def truthy_def)

text \<open>
  Claim C8. The claim has a review comment created when a commit id, a path and a line
  number are all given. The source passes the commit id under the keyword
  \<^verbatim>\<open>commit_id\<close>, which \<^verbatim>\<open>PullRequest.create_review_comment\<close> does not have. In the run
  of \<^verbatim>\<open>test_create_pull_request_review_comment\<close> the repository and the pull request are
  resolved, the call raises \<^verbatim>\<open>TypeError\<close>, and no comment of either kind is created.
\<close>

theorem review_comment_raises_type_error:
  "create_pull_request_comment
      (mock_sdk (\<lambda>name. Inl (GithubException 404 ''Not found''))
         \<lparr> tree_sha = ''tree_sha'', tree_entries = [] \<rparr>)
      ''octocat'' ''Hello-World'' 1 ''Fix this line''
      (Some ''abc123'') (Some ''src/file.py'') (Some 10) (Some ''RIGHT'')
      \<lparr> remote = (), trace = [] \<rparr>
   = (Inl (TypeError
        (''PullRequest.create_review_comment() got an unexpected keyword argument ''
           @ [CHR 0x27] @ ''commit_id'' @ [CHR 0x27])),
      \<lparr> remote = (),
        trace =
          [GetRepo ''octocat/Hello-World'' (Inr (Repository ''octocat/Hello-World'')),
           GetPull (Repository ''octocat/Hello-World'') 1
             (Inr (PullRequest (Repository ''octocat/Hello-World'') 1))] \<rparr>)"
  by (simp add: create_pull_request_comment_def and_then_def sdk_calls call_def
      mock_sdk_def truthy_def)

subsection \<open>Runs against the mock\<close>

text \<open>
  The three runs of the tests: the branch exists; neither branch exists; the base branch
  exists and the new one does not.
\<close>

theorem create_branch_outcomes_witness:
  "fst (create_branch
      (mock_sdk (\<lambda>name. Inr \<lparr> ref_name = name, object_sha = ''base_sha'' \<rparr>)
         \<lparr> tree_sha = ''tree_sha'', tree_entries = [] \<rparr>)
      ''octocat'' ''Hello-World'' ''existing-branch'' ''main''
      \<lparr> remote = (), trace = [] \<rparr>)
   = Inl (ValueError
       (''Branch '' @ [CHR 0x27] @ ''existing-branch'' @ [CHR 0x27] @ '' already exists''))
  \<and> fst (create_branch
      (mock_sdk (\<lambda>name. Inl (GithubException 404 ''Not found''))
         \<lparr> tree_sha = ''tree_sha'', tree_entries = [] \<rparr>)
      ''octocat'' ''Hello-World'' ''new-branch'' ''nonexistent''
      \<lparr> remote = (), trace = [] \<rparr>)
   = Inl (ValueError
       (''Base branch '' @ [CHR 0x27] @ ''nonexistent'' @ [CHR 0x27] @ '' not found: Not found''))
  \<and> create_branch
      (mock_sdk (\<lambda>name. if name = ''heads/main''
                    then Inr \<lparr> ref_name = name, object_sha = ''base_sha'' \<rparr>
                    else Inl (GithubException 404 ''Not found''))
         \<lparr> tree_sha = ''tree_sha'', tree_entries = [] \<rparr>)
      ''octocat'' ''Hello-World'' ''feature/new-branch'' ''main''
      \<lparr> remote = (), trace = [] \<rparr>
   = (Inr [(''branch'', PStr ''feature/new-branch''),
           (''base_branch'', PStr ''main''),
           (''commit_sha'', PStr ''base_sha'')],
      \<lparr> remote = (),
        trace =
          [GetRepo ''octocat/Hello-World'' (Inr (Repository ''octocat/Hello-World'')),
           GetGitRef (Repository ''octocat/Hello-World'') ''heads/feature/new-branch''
             (Inl (GithubException 404 ''Not found'')),
           GetGitRef (Repository ''octocat/Hello-World'') ''heads/main''
             (Inr \<lparr> ref_name = ''heads/main'', object_sha = ''base_sha'' \<rparr>),
           CreateGitRef (Repository ''octocat/Hello-World'') ''refs/heads/feature/new-branch''
             ''base_sha''
             (Inr \<lparr> ref_name = ''refs/heads/feature/new-branch'',
                    object_sha = ''base_sha'' \<rparr>)] \<rparr>)"
  using
    create_branch_outcomes
      [where gh = "mock_sdk (\<lambda>name. Inr \<lparr> ref_name = name, object_sha = ''base_sha'' \<rparr>)
         \<lparr> tree_sha = ''tree_sha'', tree_entries = [] \<rparr>"
        and owner = "''octocat''" and repo = "''Hello-World''"
        and branch = "''existing-branch''" and base_branch = "''main''"
        and w = "\<lparr> remote = (), trace = [] \<rparr>"
        and repository = "Repository ''octocat/Hello-World''" and ?s1.0 = "()"
        and found = "\<lparr> ref_name = ''heads/existing-branch'', object_sha = ''base_sha'' \<rparr>"
        and ?s2.0 = "()"]
    create_branch_outcomes
      [where gh = "mock_sdk (\<lambda>name. Inl (GithubException 404 ''Not found''))
         \<lparr> tree_sha = ''tree_sha'', tree_entries = [] \<rparr>"
        and owner = "''octocat''" and repo = "''Hello-World''"
        and branch = "''new-branch''" and base_branch = "''nonexistent''"
        and w = "\<lparr> remote = (), trace = [] \<rparr>"
        and repository = "Repository ''octocat/Hello-World''" and ?s1.0 = "()"
        and m = "''Not found''" and ?t2.0 = "()"
        and e = "GithubException 404 ''Not found''" and ?t3.0 = "()"]
    create_branch_outcomes
      [where gh = "mock_sdk (\<lambda>name. if name = ''heads/main''
                    then Inr \<lparr> ref_name = name, object_sha = ''base_sha'' \<rparr>
                    else Inl (GithubException 404 ''Not found''))
         \<lparr> tree_sha = ''tree_sha'', tree_entries = [] \<rparr>"
        and owner = "''octocat''" and repo = "''Hello-World''"
        and branch = "''feature/new-branch''" and base_branch = "''main''"
        and w = "\<lparr> remote = (), trace = [] \<rparr>"
        and repository = "Repository ''octocat/Hello-World''" and ?s1.0 = "()"
        and m = "''Not found''" and ?t2.0 = "()"
        and base_ref = "\<lparr> ref_name = ''heads/main'', object_sha = ''base_sha'' \<rparr>"
        and ?u3.0 = "()"
        and new_ref = "\<lparr> ref_name = ''refs/heads/feature/new-branch'',
                    object_sha = ''base_sha'' \<rparr>"
        and ?u4.0 = "()"]
  by (simp add: mock_sdk_def)

text \<open>
  Lookups that fail with status 500: raised again by the check of \<open>create_branch\<close> and by
  \<open>push_to_pull_request\<close>, turned into a \<^verbatim>\<open>ValueError\<close> by \<open>push_files_to_branch\<close> and by
  the lookup of the base branch.
\<close>

theorem not_found_handling_witness:
  "fst (create_branch
      (mock_sdk (\<lambda>name. Inl (GithubException 500 ''Server Error''))
         \<lparr> tree_sha = ''tree_sha'', tree_entries = [] \<rparr>)
      ''octocat'' ''Hello-World'' ''new-branch'' ''main''
      \<lparr> remote = (), trace = [] \<rparr>)
   = Inl (GithubException 500 ''Server Error'')
  \<and> fst (push_files_to_branch
      (mock_sdk (\<lambda>name. Inl (GithubException 500 ''Server Error''))
         \<lparr> tree_sha = ''tree_sha'', tree_entries = [] \<rparr>)
      ''octocat'' ''Hello-World'' ''new-branch'' [(''file.py'', ''content'')] ''Add file''
      \<lparr> remote = (), trace = [] \<rparr>)
   = Inl (ValueError
       (''Branch '' @ [CHR 0x27] @ ''new-branch'' @ [CHR 0x27] @ '' not found: Server Error''))
  \<and> fst (push_to_pull_request
      (mock_sdk (\<lambda>name. Inl (GithubException 500 ''Server Error''))
         \<lparr> tree_sha = ''tree_sha'', tree_entries = [] \<rparr>)
      ''octocat'' ''Hello-World'' ''new-branch'' ''file.py'' ''content'' ''Add file'' None
      \<lparr> remote = (), trace = [] \<rparr>)
   = Inl (GithubException 500 ''Server Error'')
  \<and> fst (create_branch
      (mock_sdk (\<lambda>name. if name = ''heads/main''
                    then Inl (GithubException 500 ''Server Error'')
                    else Inl (GithubException 404 ''Not found''))
         \<lparr> tree_sha = ''tree_sha'', tree_entries = [] \<rparr>)
      ''octocat'' ''Hello-World'' ''new-branch'' ''main''
      \<lparr> remote = (), trace = [] \<rparr>)
   = Inl (ValueError
       (''Base branch '' @ [CHR 0x27] @ ''main'' @ [CHR 0x27] @ '' not found: Server Error''))"
  using
    not_found_handling
      [where gh = "mock_sdk (\<lambda>name. Inl (GithubException 500 ''Server Error''))
         \<lparr> tree_sha = ''tree_sha'', tree_entries = [] \<rparr>"
        and owner = "''octocat''" and repo = "''Hello-World''"
        and branch = "''new-branch''" and base_branch = "''main''"
        and w = "\<lparr> remote = (), trace = [] \<rparr>"
        and repository = "Repository ''octocat/Hello-World''" and ?s1.0 = "()"
        and st = 500 and m = "''Server Error''" and ?s2.0 = "()"
        and e = "GithubException 500 ''Server Error''"
        and files = "[(''file.py'', ''content'')]" and message = "''Add file''"
        and file_path = "''file.py''" and content = "''content''" and pr_number = None]
    not_found_handling
      [where gh = "mock_sdk (\<lambda>name. if name = ''heads/main''
                    then Inl (GithubException 500 ''Server Error'')
                    else Inl (GithubException 404 ''Not found''))
         \<lparr> tree_sha = ''tree_sha'', tree_entries = [] \<rparr>"
        and owner = "''octocat''" and repo = "''Hello-World''"
        and branch = "''new-branch''" and base_branch = "''main''"
        and w = "\<lparr> remote = (), trace = [] \<rparr>"
        and repository = "Repository ''octocat/Hello-World''" and ?s1.0 = "()"
        and m = "''Not found''" and ?t2.0 = "()"
        and e = "GithubException 500 ''Server Error''" and ?t3.0 = "()"]
  by (simp add: mock_sdk_def)

end
